theory Spec2Isabelle
  imports Main "HOL-Library.Sublist" "HOL-Library.AList"
begin

section \<open>JavaScript primitives the servers rely on\<close>

text \<open>
  Strings are \<^typ>\<open>string\<close>; \<open>s.length\<close> is \<^const>\<open>length\<close>. The functions below follow
  the ECMAScript definitions of the built-ins that the TypeScript sources call.
\<close>

text \<open>\<open>s.startsWith(t)\<close>.\<close>

definition startsWith :: "string \<Rightarrow> string \<Rightarrow> bool" where
  "startsWith s t = prefix t s"

text \<open>
  The first occurrence of \<open>pat\<close> in \<open>s\<close>: the text before it and the text after it.
  The empty pattern occurs at position 0.
\<close>

fun find_first :: "string \<Rightarrow> string \<Rightarrow> (string \<times> string) option" where
  "find_first pat [] = (if pat = [] then Some ([], []) else None)"
| "find_first pat (c # s) =
     (if prefix pat (c # s) then Some ([], drop (length pat) (c # s))
      else (case find_first pat s of
              None \<Rightarrow> None
            | Some (b, a) \<Rightarrow> Some (c # b, a)))"

text \<open>\<open>s.includes(t)\<close> on strings.\<close>

definition str_includes :: "string \<Rightarrow> string \<Rightarrow> bool" where
  "str_includes s t = (find_first t s \<noteq> None)"

text \<open>\<open>s.toLowerCase()\<close>, on the ASCII letters.\<close>

definition lower_char :: "char \<Rightarrow> char" where
  "lower_char c =
     (let n = (of_char c :: nat) in if 65 \<le> n \<and> n \<le> 90 then char_of (n + 32) else c)"

definition toLowerCase :: "string \<Rightarrow> string" where
  "toLowerCase s = map lower_char s"

text \<open>
  \<open>[...new Set(xs)]\<close>: a Set keeps the first occurrence of every value, in insertion
  order. \<open>set_add_all acc xs\<close> adds the values of \<open>xs\<close> one by one to a Set whose content
  is \<open>acc\<close>.
\<close>

fun set_add_all :: "'a list \<Rightarrow> 'a list \<Rightarrow> 'a list" where
  "set_add_all acc [] = acc"
| "set_add_all acc (x # xs) = set_add_all (if x \<in> set acc then acc else acc @ [x]) xs"

definition spread_Set :: "'a list \<Rightarrow> 'a list" where
  "spread_Set xs = set_add_all [] xs"

subsection \<open>Objects used as dictionaries\<close>

text \<open>
  \<open>Record<string, V>\<close> is an ordinary object. Its own properties are enumerated
  (\<open>Object.entries\<close>, \<open>Object.values\<close>, \<open>JSON.stringify\<close>) with the array-index keys first,
  in ascending numeric order, and then the other string keys in the order of their
  creation. An object is modelled by the list of its own properties in that enumeration
  order. Inherited properties of \<open>Object.prototype\<close> are not modelled: entity names are
  assumed not to be \<open>constructor\<close>, \<open>toString\<close>, \<open>__proto__\<close> and the like.
\<close>

type_synonym 'v js_object = "(string \<times> 'v) list"

definition is_digit :: "char \<Rightarrow> bool" where
  "is_digit c = (48 \<le> (of_char c :: nat) \<and> (of_char c :: nat) \<le> 57)"

definition dec_value :: "string \<Rightarrow> nat" where
  "dec_value s = foldl (\<lambda>n c. 10 * n + ((of_char c :: nat) - 48)) 0 s"

text \<open>An array index is a canonical numeric string below \<open>2^32 - 1\<close>.\<close>

definition is_array_index :: "string \<Rightarrow> bool" where
  "is_array_index s =
     (s \<noteq> [] \<and> list_all is_digit s \<and> (s = ''0'' \<or> hd s \<noteq> CHR ''0'')
      \<and> length s \<le> 10 \<and> dec_value s < 4294967295)"

definition js_get :: "'v js_object \<Rightarrow> string \<Rightarrow> 'v option" where
  "js_get obj k = map_of obj k"

fun insert_index :: "string \<Rightarrow> 'v \<Rightarrow> 'v js_object \<Rightarrow> 'v js_object" where
  "insert_index k v [] = [(k, v)]"
| "insert_index k v ((k', v') # obj) =
     (if is_array_index k' \<and> dec_value k' < dec_value k
      then (k', v') # insert_index k v obj
      else (k, v) # (k', v') # obj)"

text \<open>\<open>obj[k] = v\<close>: an existing property keeps its place, a new one is created.\<close>

definition js_set :: "string \<Rightarrow> 'v \<Rightarrow> 'v js_object \<Rightarrow> 'v js_object" where
  "js_set k v obj =
     (if map_of obj k \<noteq> None then AList.update k v obj
      else if is_array_index k then insert_index k v obj
      else obj @ [(k, v)])"

text \<open>\<open>delete obj[k]\<close>.\<close>

definition js_delete :: "string \<Rightarrow> 'v js_object \<Rightarrow> 'v js_object" where
  "js_delete k obj = AList.delete k obj"

section \<open>The knowledge graph (types/index.ts)\<close>

record memoryRelation =
  r_from :: string
  r_to :: string
  relationType :: string

record memoryNode =
  name :: string
  entityType :: string
  observations :: "string list"
  relations :: "memoryRelation list"

text \<open>\<open>MemoryEntity\<close>, the argument of \<open>create_entities\<close>; \<open>observations\<close> is optional.\<close>

record memoryEntity =
  e_name :: string
  e_entityType :: string
  e_observations :: "string list option"

text \<open>\<open>MemoryGraph.entities\<close>.\<close>

type_synonym memoryGraph = "memoryNode js_object"

record memorySearchResult =
  sr_name :: string
  sr_entityType :: string
  sr_observations :: "string list"
  sr_relations :: "memoryRelation list"
  score :: int

definition or_empty :: "'a list option \<Rightarrow> 'a list" where
  "or_empty xs = (case xs of None \<Rightarrow> [] | Some ys \<Rightarrow> ys)"

definition stub_entity :: "string \<Rightarrow> memoryNode" where
  "stub_entity n = \<lparr>name = n, entityType = ''unknown'', observations = [], relations = []\<rparr>"

section \<open>MemoryServer (the standalone memory server)\<close>

text \<open>One iteration of the loop of \<open>MemoryServer.createEntities\<close>: the tag and the graph.\<close>

definition MemoryServer_createEntity :: "memoryEntity \<Rightarrow> memoryGraph \<Rightarrow> string \<times> memoryGraph" where
  "MemoryServer_createEntity entity g =
     (let node = \<lparr>name = e_name entity, entityType = e_entityType entity,
                  observations = or_empty (e_observations entity), relations = []\<rparr>
      in case js_get g (e_name entity) of
           Some existing \<Rightarrow>
             (''Updated entity: '' @ e_name entity,
              js_set (e_name entity)
                (existing\<lparr>observations := spread_Set (observations existing @ observations node)\<rparr>) g)
         | None \<Rightarrow>
             (''Created entity: '' @ e_name entity, js_set (e_name entity) node g))"

fun MemoryServer_createEntities :: "memoryEntity list \<Rightarrow> memoryGraph \<Rightarrow> string list \<times> memoryGraph" where
  "MemoryServer_createEntities [] g = ([], g)"
| "MemoryServer_createEntities (entity # entities) g =
     (let (tag, g1) = MemoryServer_createEntity entity g;
          (tags, g2) = MemoryServer_createEntities entities g1
      in (tag # tags, g2))"

text \<open>
  The two stub checks that open each iteration of \<open>createRelations\<close>. After them the
  source entity exists, so the \<open>None\<close> branch of the lookup that follows is never taken.
\<close>

definition ensure_entity :: "string \<Rightarrow> memoryGraph \<Rightarrow> memoryGraph" where
  "ensure_entity n g = (if js_get g n = None then js_set n (stub_entity n) g else g)"

definition same_edge :: "memoryRelation \<Rightarrow> memoryRelation \<Rightarrow> bool" where
  "same_edge relation r = (r_to r = r_to relation \<and> relationType r = relationType relation)"

definition MemoryServer_createRelation :: "memoryRelation \<Rightarrow> memoryGraph \<Rightarrow> string \<times> memoryGraph" where
  "MemoryServer_createRelation relation g =
     (let g1 = ensure_entity (r_from relation) g;
          g2 = ensure_entity (r_to relation) g1
      in case js_get g2 (r_from relation) of
           None \<Rightarrow> (''TypeError'', g2)
         | Some sourceEntity \<Rightarrow>
             (case find (same_edge relation) (relations sourceEntity) of
                None \<Rightarrow>
                  (''Created relation: '' @ r_from relation @ '' -> '' @ r_to relation
                     @ '' ('' @ relationType relation @ '')'',
                   js_set (r_from relation)
                     (sourceEntity\<lparr>relations := relations sourceEntity @ [relation]\<rparr>) g2)
              | Some existingRelation \<Rightarrow>
                  (''Relation already exists: '' @ r_from relation @ '' -> '' @ r_to relation
                     @ '' ('' @ relationType relation @ '')'',
                   g2)))"

fun MemoryServer_createRelations :: "memoryRelation list \<Rightarrow> memoryGraph \<Rightarrow> string list \<times> memoryGraph" where
  "MemoryServer_createRelations [] g = ([], g)"
| "MemoryServer_createRelations (relation # rels) g =
     (let (tag, g1) = MemoryServer_createRelation relation g;
          (tags, g2) = MemoryServer_createRelations rels g1
      in (tag # tags, g2))"

text \<open>
  Failures. A thrown \<open>Error\<close> is a value; \<open>Failed label e\<close> is the re-throw
  \<open>new Error(`Failed to ...: ${error.message}`)\<close> of the \<open>catch\<close> blocks.
\<close>

datatype error =
    AccessDenied string
  | EntityNotFound string
  | TextNotFound string
  | LastDirectory
  | DirectoryNotAccessible string
  | SaveConfigurationFailed
  | ENOENT string
  | EISDIR string
  | ENOTDIR string
  | ENOTEMPTY string
  | EINVAL string
  | Failed string error

text \<open>
  \<open>MemoryServer.addObservations\<close>: the error text for an unknown entity, otherwise the
  number printed in \<open>Added n new observations\<close>.
\<close>

definition MemoryServer_addObservations ::
    "string \<Rightarrow> string list \<Rightarrow> memoryGraph \<Rightarrow> (error + int) \<times> memoryGraph" where
  "MemoryServer_addObservations entityName obs g =
     (case js_get g entityName of
        None \<Rightarrow> (Inl (EntityNotFound entityName), g)
      | Some entity \<Rightarrow>
          (let originalCount = int (length (observations entity));
               merged = spread_Set (observations entity @ obs);
               addedCount = int (length merged) - originalCount
           in (Inr addedCount, js_set entityName (entity\<lparr>observations := merged\<rparr>) g)))"

definition to_result :: "memoryNode \<Rightarrow> int \<Rightarrow> memorySearchResult" where
  "to_result entity sc =
     \<lparr>sr_name = name entity, sr_entityType = entityType entity,
      sr_observations = observations entity, sr_relations = relations entity, score = sc\<rparr>"

text \<open>The body of the loop of \<open>MemoryServer.searchNodes\<close>: the score of one entry.\<close>

definition MemoryServer_score :: "string \<Rightarrow> string \<Rightarrow> memoryNode \<Rightarrow> int" where
  "MemoryServer_score queryLower key entity =
     (let s0 = 0;
          s1 = (if str_includes (toLowerCase key) queryLower then s0 + 10 else s0);
          s2 = (if str_includes (toLowerCase (entityType entity)) queryLower then s1 + 5 else s1);
          s3 = foldl (\<lambda>s observation.
                  if str_includes (toLowerCase observation) queryLower then s + 3 else s)
                s2 (observations entity);
          s4 = foldl (\<lambda>s relation.
                  if str_includes (toLowerCase (relationType relation)) queryLower
                     \<or> str_includes (toLowerCase (r_to relation)) queryLower
                  then s + 2 else s)
                s3 (relations entity)
      in s4)"

text \<open>
  \<open>results.sort((a, b) => (b.score || 0) - (a.score || 0))\<close>: \<open>Array.prototype.sort\<close> is
  stable, so the result is the stable sort by descending score.
\<close>

definition sort_by_score :: "memorySearchResult list \<Rightarrow> memorySearchResult list" where
  "sort_by_score results = sort_key (\<lambda>r. - score r) results"

definition MemoryServer_hits :: "string \<Rightarrow> memoryGraph \<Rightarrow> memorySearchResult list" where
  "MemoryServer_hits queryLower g =
     concat (map (\<lambda>(key, entity).
        let sc = MemoryServer_score queryLower key entity
        in if sc > 0 then [to_result entity sc] else []) g)"

definition MemoryServer_searchNodes :: "string \<Rightarrow> memoryGraph \<Rightarrow> memorySearchResult list" where
  "MemoryServer_searchNodes query g = sort_by_score (MemoryServer_hits (toLowerCase query) g)"

text \<open>\<open>entity.relations = entity.relations.filter(r => r.to !== n)\<close> on every entity.\<close>

definition strip_relations_to :: "string \<Rightarrow> memoryGraph \<Rightarrow> memoryGraph" where
  "strip_relations_to n g =
     map (\<lambda>(key, entity). (key, entity\<lparr>relations := filter (\<lambda>r. r_to r \<noteq> n) (relations entity)\<rparr>)) g"

definition MemoryServer_deleteEntity :: "string \<Rightarrow> memoryGraph \<Rightarrow> string \<times> memoryGraph" where
  "MemoryServer_deleteEntity n g =
     (if js_get g n \<noteq> None
      then (''Deleted entity: '' @ n, strip_relations_to n (js_delete n g))
      else (''Entity not found: '' @ n, g))"

fun MemoryServer_deleteEntities :: "string list \<Rightarrow> memoryGraph \<Rightarrow> string list \<times> memoryGraph" where
  "MemoryServer_deleteEntities [] g = ([], g)"
| "MemoryServer_deleteEntities (n # entityNames) g =
     (let (tag, g1) = MemoryServer_deleteEntity n g;
          (tags, g2) = MemoryServer_deleteEntities entityNames g1
      in (tag # tags, g2))"

section \<open>The memory methods of ComprehensiveFilesystemMemoryServer\<close>

definition createEntityInternal :: "memoryEntity \<Rightarrow> memoryGraph \<Rightarrow> memoryGraph" where
  "createEntityInternal entity g =
     (case js_get g (e_name entity) of
        Some existing \<Rightarrow>
          (case e_observations entity of
             Some obs \<Rightarrow>
               (let existingObs = observations existing
                in js_set (e_name entity)
                     (existing\<lparr>observations :=
                        existingObs @ filter (\<lambda>ob. ob \<notin> set existingObs) obs\<rparr>) g)
           | None \<Rightarrow> g)
      | None \<Rightarrow>
          js_set (e_name entity)
            \<lparr>name = e_name entity, entityType = e_entityType entity,
             observations = or_empty (e_observations entity), relations = []\<rparr> g)"

fun createEntitiesInternal :: "memoryEntity list \<Rightarrow> memoryGraph \<Rightarrow> memoryGraph" where
  "createEntitiesInternal [] g = g"
| "createEntitiesInternal (entity # entities) g =
     createEntitiesInternal entities (createEntityInternal entity g)"

definition createRelationInternal :: "memoryRelation \<Rightarrow> memoryGraph \<Rightarrow> memoryGraph" where
  "createRelationInternal relation g =
     (let g1 = ensure_entity (r_from relation) g;
          g2 = ensure_entity (r_to relation) g1
      in case js_get g2 (r_from relation) of
           None \<Rightarrow> g2
         | Some fromEntity \<Rightarrow>
             (case find (same_edge relation) (relations fromEntity) of
                None \<Rightarrow>
                  js_set (r_from relation)
                    (fromEntity\<lparr>relations := relations fromEntity @
                       [\<lparr>r_from = r_from relation, r_to = r_to relation,
                         relationType = relationType relation\<rparr>]\<rparr>) g2
              | Some existingRelation \<Rightarrow> g2))"

fun createRelationsInternal :: "memoryRelation list \<Rightarrow> memoryGraph \<Rightarrow> memoryGraph" where
  "createRelationsInternal [] g = g"
| "createRelationsInternal (relation # rels) g =
     createRelationsInternal rels (createRelationInternal relation g)"

text \<open>
  \<open>addObservations\<close> of the composite server: the number printed in
  \<open>Successfully added n observations\<close>, or the re-thrown error.
\<close>

definition Comprehensive_addObservations ::
    "string \<Rightarrow> string list \<Rightarrow> memoryGraph \<Rightarrow> (error + int) \<times> memoryGraph" where
  "Comprehensive_addObservations entityName obs g =
     (case js_get g entityName of
        None \<Rightarrow> (Inl (Failed ''Failed to add observations'' (EntityNotFound entityName)), g)
      | Some entity \<Rightarrow>
          (let existingObs = observations entity
           in (Inr (int (length obs)),
               js_set entityName
                 (entity\<lparr>observations :=
                    existingObs @ filter (\<lambda>ob. ob \<notin> set existingObs) obs\<rparr>) g)))"

definition Comprehensive_score :: "string \<Rightarrow> memoryNode \<Rightarrow> int" where
  "Comprehensive_score queryLower entity =
     (let s0 = 0;
          s1 = (if str_includes (toLowerCase (name entity)) queryLower then s0 + 100 else s0);
          s2 = (if str_includes (toLowerCase (entityType entity)) queryLower then s1 + 50 else s1);
          s3 = foldl (\<lambda>s observation.
                  if str_includes (toLowerCase observation) queryLower then s + 10 else s)
                s2 (observations entity)
      in s3)"

definition Comprehensive_hits :: "string \<Rightarrow> memoryGraph \<Rightarrow> memorySearchResult list" where
  "Comprehensive_hits queryLower g =
     concat (map (\<lambda>(key, entity).
        let sc = Comprehensive_score queryLower entity
        in if sc > 0 then [to_result entity sc] else []) g)"

definition searchNodesInternal :: "string \<Rightarrow> memoryGraph \<Rightarrow> memorySearchResult list" where
  "searchNodesInternal query g = sort_by_score (Comprehensive_hits (toLowerCase query) g)"

definition Comprehensive_deleteEntity :: "string \<Rightarrow> memoryGraph \<Rightarrow> memoryGraph" where
  "Comprehensive_deleteEntity entityName g = strip_relations_to entityName (js_delete entityName g)"

fun Comprehensive_deleteEntities :: "string list \<Rightarrow> memoryGraph \<Rightarrow> memoryGraph" where
  "Comprehensive_deleteEntities [] g = g"
| "Comprehensive_deleteEntities (entityName # entityNames) g =
     Comprehensive_deleteEntities entityNames (Comprehensive_deleteEntity entityName g)"

section \<open>Paths, dates and numbers (Node's \<open>path\<close> module, \<open>Date\<close>, template literals)\<close>

fun split_on :: "char \<Rightarrow> string \<Rightarrow> string list" where
  "split_on d [] = [[]]"
| "split_on d (c # s) =
     (if c = d then [] # split_on d s
      else (case split_on d s of
              [] \<Rightarrow> [[c]]
            | w # ws \<Rightarrow> (c # w) # ws))"

text \<open>
  \<open>normalizeString\<close> of the POSIX \<open>path\<close> module, not allowed above the root: empty and
  \<open>.\<close> segments are dropped, \<open>..\<close> removes the segment before it. \<open>acc\<close> holds the segments
  kept so far, last first.
\<close>

fun normalize_segments :: "string list \<Rightarrow> string list \<Rightarrow> string list" where
  "normalize_segments acc [] = rev acc"
| "normalize_segments acc (seg # segs) =
     (if seg = [] \<or> seg = ''.'' then normalize_segments acc segs
      else if seg = ''..'' then normalize_segments (case acc of [] \<Rightarrow> [] | _ # up \<Rightarrow> up) segs
      else normalize_segments (seg # acc) segs)"

definition path_segments :: "string \<Rightarrow> string list" where
  "path_segments p = normalize_segments [] (split_on (CHR ''/'') p)"

fun join_slash :: "string list \<Rightarrow> string" where
  "join_slash [] = []"
| "join_slash [seg] = seg"
| "join_slash (seg # segs) = seg @ ''/'' @ join_slash segs"

definition render_path :: "string list \<Rightarrow> string" where
  "render_path segs = ''/'' @ join_slash segs"

text \<open>
  \<open>path.resolve(p)\<close> on POSIX with \<open>process.cwd() = cwd\<close>: an absolute, normalized path
  without a trailing slash.
\<close>

definition path_resolve :: "string \<Rightarrow> string \<Rightarrow> string" where
  "path_resolve cwd p =
     render_path (path_segments (if startsWith p ''/'' then p else cwd @ ''/'' @ p))"

text \<open>\<open>path.basename(p)\<close>: trailing slashes are ignored, then the last segment is taken.\<close>

definition path_basename :: "string \<Rightarrow> string" where
  "path_basename p =
     rev (takeWhile (\<lambda>c. c \<noteq> CHR ''/'') (dropWhile (\<lambda>c. c = CHR ''/'') (rev p)))"

text \<open>
  \<open>path.dirname(p)\<close>: the scan runs from the end down to index 1; \<open>end\<close> is the index of
  the slash before the last segment.
\<close>

definition path_dirname :: "string \<Rightarrow> string" where
  "path_dirname p =
     (case p of
        [] \<Rightarrow> ''.''
      | c0 # body \<Rightarrow>
          (let hasRoot = (c0 = CHR ''/'');
               scanned = dropWhile (\<lambda>c. c \<noteq> CHR ''/'') (dropWhile (\<lambda>c. c = CHR ''/'') (rev body))
           in case scanned of
                [] \<Rightarrow> (if hasRoot then ''/'' else ''.'')
              | _ # front \<Rightarrow>
                  (if hasRoot \<and> front = [] then ''//'' else c0 # rev front)))"

definition digit_char :: "nat \<Rightarrow> char" where
  "digit_char n = char_of (48 + n mod 10)"

text \<open>A number in a template literal: its decimal digits.\<close>

fun show_nat :: "nat \<Rightarrow> string" where
  "show_nat n = (if n < 10 then [digit_char n] else show_nat (n div 10) @ [digit_char n])"

declare show_nat.simps [simp del]

definition pad2 :: "int \<Rightarrow> string" where
  "pad2 n = [digit_char (nat n div 10), digit_char (nat n)]"

definition pad3 :: "int \<Rightarrow> string" where
  "pad3 n = [digit_char (nat n div 100), digit_char (nat n div 10), digit_char (nat n)]"

definition pad4 :: "int \<Rightarrow> string" where
  "pad4 n = [digit_char (nat n div 1000), digit_char (nat n div 100),
             digit_char (nat n div 10), digit_char (nat n)]"

text \<open>
  Time values are milliseconds since the epoch, as \<open>Date.now()\<close> returns them. The two
  functions below convert between a day number and a civil date of the proleptic Gregorian
  calendar.
\<close>

definition civil_from_days :: "int \<Rightarrow> int \<times> int \<times> int" where
  "civil_from_days z0 =
     (let z = z0 + 719468;
          era = z div 146097;
          doe = z mod 146097;
          yoe = (doe - doe div 1460 + doe div 36524 - doe div 146096) div 365;
          y = yoe + era * 400;
          doy = doe - (365 * yoe + yoe div 4 - yoe div 100);
          mp = (5 * doy + 2) div 153;
          d = doy - (153 * mp + 2) div 5 + 1;
          m = (if mp < 10 then mp + 3 else mp - 9)
      in (if m \<le> 2 then y + 1 else y, m, d))"

definition days_from_civil :: "int \<Rightarrow> int \<Rightarrow> int \<Rightarrow> int" where
  "days_from_civil y0 m d =
     (let y = (if m \<le> 2 then y0 - 1 else y0);
          era = y div 400;
          yoe = y - era * 400;
          doy = (153 * (if 2 < m then m - 3 else m + 9) + 2) div 5 + d - 1;
          doe = yoe * 365 + yoe div 4 - yoe div 100 + doy
      in era * 146097 + doe - 719468)"

text \<open>
  \<open>new Date(t).toISOString()\<close> for the years 0000 to 9999:
  \<open>YYYY-MM-DDTHH:mm:ss.sssZ\<close>.
\<close>

definition toISOString :: "int \<Rightarrow> string" where
  "toISOString t =
     (let days = t div 86400000;
          ms = t mod 86400000;
          (y, m, d) = civil_from_days days
      in pad4 y @ ''-'' @ pad2 m @ ''-'' @ pad2 d @ ''T''
         @ pad2 (ms div 3600000) @ '':'' @ pad2 (ms div 60000 mod 60) @ '':''
         @ pad2 (ms div 1000 mod 60) @ ''.'' @ pad3 (ms mod 1000) @ ''Z'')"

definition digits_value :: "string \<Rightarrow> int option" where
  "digits_value s = (if s \<noteq> [] \<and> list_all is_digit s then Some (int (dec_value s)) else None)"

text \<open>
  \<open>new Date(s).getTime()\<close> for a string in the form \<open>toISOString\<close> writes; \<open>None\<close> is the
  invalid date (\<open>NaN\<close>). Other date formats that \<open>Date\<close> may accept are read as invalid.
\<close>

definition date_parse :: "string \<Rightarrow> int option" where
  "date_parse s =
     (if length s = 24 \<and> s ! 4 = CHR ''-'' \<and> s ! 7 = CHR ''-'' \<and> s ! 10 = CHR ''T''
         \<and> s ! 13 = CHR '':'' \<and> s ! 16 = CHR '':'' \<and> s ! 19 = CHR ''.'' \<and> s ! 23 = CHR ''Z''
      then (case (digits_value (take 4 s), digits_value (take 2 (drop 5 s)),
                  digits_value (take 2 (drop 8 s)), digits_value (take 2 (drop 11 s)),
                  digits_value (take 2 (drop 14 s)), digits_value (take 2 (drop 17 s)),
                  digits_value (take 3 (drop 20 s))) of
              (Some y, Some m, Some d, Some hh, Some mm, Some ss, Some mmm) \<Rightarrow>
                (if 1 \<le> m \<and> m \<le> 12 \<and> 1 \<le> d \<and> d \<le> 31 \<and> hh \<le> 23 \<and> mm \<le> 59 \<and> ss \<le> 59
                 then Some (days_from_civil y m d * 86400000 + hh * 3600000 + mm * 60000
                            + ss * 1000 + mmm)
                 else None)
            | _ \<Rightarrow> None)
      else None)"

text \<open>\<open>s.split(sep)[1]\<close>: the piece between the first and the second separator.\<close>

definition split_second :: "string \<Rightarrow> string \<Rightarrow> string option" where
  "split_second sep s =
     (case find_first sep s of
        None \<Rightarrow> None
      | Some (b, a) \<Rightarrow>
          (case find_first sep a of
             None \<Rightarrow> Some a
           | Some (piece, rest) \<Rightarrow> Some piece))"

text \<open>\<open>new Date(x) > new Date(t)\<close>, where \<open>x\<close> may be \<open>undefined\<close>.\<close>

definition date_after :: "string option \<Rightarrow> int \<Rightarrow> bool" where
  "date_after x t =
     (case x of
        None \<Rightarrow> False
      | Some s \<Rightarrow> (case date_parse s of None \<Rightarrow> False | Some u \<Rightarrow> t < u))"

text \<open>
  \<open>s.replace(pat, repl)\<close> with a string pattern: the first occurrence is replaced, and
  in the replacement text \<open>$$\<close> stands for \<open>$\<close>, \<open>$&\<close> for the matched text, \<open>$`\<close> for the
  text before the match and \<open>$'\<close> for the text after it (\<open>GetSubstitution\<close>; there are no
  capture groups, so \<open>$1\<close> and the like stay as they are).
\<close>

fun getSubstitution :: "string \<Rightarrow> string \<Rightarrow> string \<Rightarrow> string \<Rightarrow> string" where
  "getSubstitution matched preceding following [] = []"
| "getSubstitution matched preceding following [c] = [c]"
| "getSubstitution matched preceding following (c # c2 # r) =
     (if c = CHR ''$'' \<and> c2 = CHR ''$'' then CHR ''$'' # getSubstitution matched preceding following r
      else if c = CHR ''$'' \<and> c2 = CHR ''&'' then matched @ getSubstitution matched preceding following r
      else if c = CHR ''$'' \<and> c2 = CHR 0x60 then preceding @ getSubstitution matched preceding following r
      else if c = CHR ''$'' \<and> c2 = CHR 0x27 then following @ getSubstitution matched preceding following r
      else c # getSubstitution matched preceding following (c2 # r))"

definition js_replace :: "string \<Rightarrow> string \<Rightarrow> string \<Rightarrow> string" where
  "js_replace s pat repl =
     (case find_first pat s of
        None \<Rightarrow> s
      | Some (b, a) \<Rightarrow> b @ getSubstitution pat b a repl @ a)"

section \<open>The path sandbox\<close>

text \<open>
  \<open>validatePath\<close> is the same method in FilesystemServer, FilesystemServerWithMemory and
  ComprehensiveFilesystemMemoryServer.
\<close>

definition validatePath :: "string \<Rightarrow> string list \<Rightarrow> string \<Rightarrow> error + string" where
  "validatePath cwd allowedDirectories targetPath =
     (let resolvedPath = path_resolve cwd targetPath;
          isAllowed = list_ex (\<lambda>allowedDir. startsWith resolvedPath allowedDir) allowedDirectories
      in if \<not> isAllowed then Inl (AccessDenied targetPath) else Inr resolvedPath)"

section \<open>The disk\<close>

text \<open>
  The files and directories the tools work on, by absolute path. The servers' own JSON
  files (the memory graph and the directory configuration) are not part of this disk:
  \<open>saveMemoryGraph\<close> swallows its errors, and a failing \<open>saveConfiguration\<close> is the
  parameter \<open>save_ok\<close> of the directory operations.
\<close>

datatype fs_entry = File string | Directory

type_synonym disk = "(string \<times> fs_entry) list"


definition is_directory :: "disk \<Rightarrow> string \<Rightarrow> bool" where
  "is_directory d p = (case map_of d p of Some Directory \<Rightarrow> True | _ \<Rightarrow> False)"

text \<open>\<open>fs.readFile(p, 'utf-8')\<close>.\<close>

definition fs_readFile :: "disk \<Rightarrow> string \<Rightarrow> error + string" where
  "fs_readFile d p =
     (case map_of d p of
        Some (File c) \<Rightarrow> Inr c
      | Some Directory \<Rightarrow> Inl (EISDIR p)
      | None \<Rightarrow> Inl (ENOENT p))"


text \<open>\<open>fs.writeFile(p, content, 'utf-8')\<close>: the parent must be a directory.\<close>

definition fs_writeFile :: "disk \<Rightarrow> string \<Rightarrow> string \<Rightarrow> error + disk" where
  "fs_writeFile d p content =
     (if is_directory d p then Inl (EISDIR p)
      else if \<not> is_directory d (path_dirname p) then Inl (ENOENT p)
      else Inr (AList.update p (File content) d))"



section \<open>FilesystemServer (the plain filesystem server)\<close>

record fileEdit =
  oldText :: string
  newText :: string

text \<open>What a tool call answers when it does not fail.\<close>

datatype tool_output =
    FileContent string
  | FileContents "(error + string) js_object"
  | WroteFile string
  | DryRunPreview nat nat string
  | EditedFile string
  | CreatedDirectory string
  | DirectoryEntries "string list"
  | MovedFile string string
  | AlreadyAllowed string
  | AddedDirectory string nat
  | NotInList string
  | RemovedDirectory string nat

text \<open>The loop of \<open>editFile\<close>: the edits in order, each on the content the last one left.\<close>

fun apply_edits :: "string \<Rightarrow> fileEdit list \<Rightarrow> error + string" where
  "apply_edits modifiedContent [] = Inr modifiedContent"
| "apply_edits modifiedContent (edit # edits) =
     (if \<not> str_includes modifiedContent (oldText edit) then Inl (TextNotFound (oldText edit))
      else apply_edits (js_replace modifiedContent (oldText edit) (newText edit)) edits)"

text \<open>
  \<open>DryRunPreview n m path\<close> is the text \<open>Original content length: n\<close>,
  \<open>Modified content length: m\<close>, \<open>Changes would be applied to: path\<close>.
\<close>

definition FilesystemServer_editFile ::
    "string \<Rightarrow> string list \<Rightarrow> string \<Rightarrow> fileEdit list \<Rightarrow> bool \<Rightarrow> disk
       \<Rightarrow> (error + tool_output) \<times> disk" where
  "FilesystemServer_editFile cwd allowedDirectories filePath edits dryRun d =
     (case validatePath cwd allowedDirectories filePath of
        Inl e \<Rightarrow> (Inl e, d)
      | Inr validatedPath \<Rightarrow>
          (case fs_readFile d validatedPath of
             Inl e \<Rightarrow> (Inl (Failed ''Failed to edit file'' e), d)
           | Inr originalContent \<Rightarrow>
               (case apply_edits originalContent edits of
                  Inl e \<Rightarrow> (Inl (Failed ''Failed to edit file'' e), d)
                | Inr modifiedContent \<Rightarrow>
                    (if dryRun
                     then (Inr (DryRunPreview (length originalContent) (length modifiedContent)
                                  filePath), d)
                     else (case fs_writeFile d validatedPath modifiedContent of
                             Inl e \<Rightarrow> (Inl (Failed ''Failed to edit file'' e), d)
                           | Inr d' \<Rightarrow> (Inr (EditedFile filePath), d'))))))"


definition FilesystemServer_removeAllowedDirectory ::
    "string \<Rightarrow> bool \<Rightarrow> string \<Rightarrow> string list \<Rightarrow> (error + tool_output) \<times> string list" where
  "FilesystemServer_removeAllowedDirectory cwd save_ok dirPath allowedDirectories =
     (let resolvedPath = path_resolve cwd dirPath;
          initialCount = length allowedDirectories;
          filtered = filter (\<lambda>dir. dir \<noteq> resolvedPath) allowedDirectories
      in if length filtered = initialCount then (Inr (NotInList dirPath), filtered)
         else if length filtered = 0
         then (Inl (Failed ''Failed to remove directory'' LastDirectory), filtered @ [resolvedPath])
         else if \<not> save_ok
         then (Inl (Failed ''Failed to remove directory'' SaveConfigurationFailed), filtered)
         else (Inr (RemovedDirectory dirPath (length filtered)), filtered))"

section \<open>ComprehensiveFilesystemMemoryServer (the composite server)\<close>

record server =
  allowedDirectories :: "string list"
  memoryGraph :: memoryGraph
  disk :: disk
  isInitialized :: bool

text \<open>The \<open>metadata\<close> argument of \<open>rememberFileAccess\<close>: the fields the method reads.\<close>

record metadata =
  md_size :: "nat option"
  md_isDirectory :: "bool option"
  md_modified :: "string option"
  md_content :: "string option"

definition no_metadata :: metadata where
  "no_metadata = \<lparr>md_size = None, md_isDirectory = None, md_modified = None, md_content = None\<rparr>"

definition metadata_observations :: "string \<Rightarrow> metadata \<Rightarrow> string list" where
  "metadata_observations operation m =
     (case md_size m of None \<Rightarrow> [] | Some n \<Rightarrow> [''Size: '' @ show_nat n @ '' bytes''])
     @ (case md_isDirectory m of
          None \<Rightarrow> []
        | Some b \<Rightarrow> [''Is directory: '' @ (if b then ''true'' else ''false'')])
     @ (case md_modified m of
          None \<Rightarrow> []
        | Some t \<Rightarrow> (if t \<noteq> [] then [''Last modified: '' @ t] else []))
     @ (case md_content m of
          None \<Rightarrow> []
        | Some c \<Rightarrow>
            (if c \<noteq> [] \<and> operation = ''read''
             then [''Content preview: '' @ (if length c > 200 then take 200 c @ ''...'' else c)]
             else []))"

text \<open>
  The filter that selects \<open>recentFiles\<close>; \<open>now\<close> is \<open>Date.now()\<close>, in milliseconds.
\<close>

definition accessed_recently :: "int \<Rightarrow> memoryNode \<Rightarrow> bool" where
  "accessed_recently now entity =
     (entityType entity = ''filesystem_file''
      \<and> list_ex (\<lambda>ob. str_includes ob ''Accessed at:''
                      \<and> date_after (split_second ''Accessed at: '' ob)
                           (now - 24 * 60 * 60 * 1000))
           (observations entity))"

text \<open>
  \<open>rememberFileAccess\<close>. Its \<open>try\<close> block cannot fail in the model, so the \<open>catch\<close> has no
  branch. One reading \<open>now\<close> of the clock stands for \<open>new Date()\<close> and \<open>Date.now()\<close>.
\<close>

definition rememberFileAccess ::
    "int \<Rightarrow> string \<Rightarrow> string \<Rightarrow> metadata option \<Rightarrow> memoryGraph \<Rightarrow> memoryGraph" where
  "rememberFileAccess now filePath operation md g =
     (let fileEntityName = ''file:'' @ filePath;
          dirPath = path_dirname filePath;
          fileName = path_basename filePath;
          directoryEntityName = ''directory:'' @ dirPath;
          obs = [''Operation: '' @ operation,
                 ''Accessed at: '' @ toISOString now,
                 ''File name: '' @ fileName,
                 ''Directory: '' @ dirPath]
                @ (case md of None \<Rightarrow> [] | Some m \<Rightarrow> metadata_observations operation m);
          g1 = createEntitiesInternal
                 [\<lparr>e_name = fileEntityName, e_entityType = ''filesystem_file'',
                   e_observations = Some obs\<rparr>] g;
          g2 = createRelationsInternal
                 [\<lparr>r_from = directoryEntityName, r_to = fileEntityName,
                   relationType = ''contains''\<rparr>] g1;
          recentFiles = filter (accessed_recently now) (map snd g2)
      in if length recentFiles > 1
         then createRelationsInternal
                [\<lparr>r_from = fileEntityName,
                  r_to = name (recentFiles ! (length recentFiles - 2)),
                  relationType = ''accessed_after''\<rparr>] g2
         else g2)"

definition Comprehensive_readFile ::
    "string \<Rightarrow> int \<Rightarrow> string \<Rightarrow> server \<Rightarrow> (error + tool_output) \<times> server" where
  "Comprehensive_readFile cwd now filePath s =
     (case validatePath cwd (allowedDirectories s) filePath of
        Inl e \<Rightarrow> (Inl e, s)
      | Inr validatedPath \<Rightarrow>
          (case fs_readFile (disk s) validatedPath of
             Inl e \<Rightarrow> (Inl (Failed ''Failed to read file'' e), s)
           | Inr content \<Rightarrow>
               (Inr (FileContent content),
                s\<lparr>memoryGraph := rememberFileAccess now filePath ''read''
                     (Some (no_metadata\<lparr>md_size := Some (length content),
                                        md_content := Some content\<rparr>))
                     (memoryGraph s)\<rparr>)))"

text \<open>One iteration of the loop of \<open>readMultipleFiles\<close>; \<open>results\<close> is the answer so far.\<close>

definition Comprehensive_readOne ::
    "string \<Rightarrow> int \<Rightarrow> string \<Rightarrow> (error + string) js_object \<times> server
       \<Rightarrow> (error + string) js_object \<times> server" where
  "Comprehensive_readOne cwd now filePath rs =
     (let (results, s) = rs
      in case validatePath cwd (allowedDirectories s) filePath of
           Inl e \<Rightarrow> (js_set filePath (Inl e) results, s)
         | Inr validatedPath \<Rightarrow>
             (case fs_readFile (disk s) validatedPath of
                Inl e \<Rightarrow> (js_set filePath (Inl e) results, s)
              | Inr content \<Rightarrow>
                  (js_set filePath (Inr content) results,
                   s\<lparr>memoryGraph := rememberFileAccess now filePath ''read''
                        (Some (no_metadata\<lparr>md_size := Some (length content),
                                           md_content := Some content\<rparr>))
                        (memoryGraph s)\<rparr>)))"

definition Comprehensive_readMultipleFiles ::
    "string \<Rightarrow> int \<Rightarrow> string list \<Rightarrow> server \<Rightarrow> (error + tool_output) \<times> server" where
  "Comprehensive_readMultipleFiles cwd now filePaths s =
     (let (results, s') = fold (Comprehensive_readOne cwd now) filePaths ([], s)
      in (Inr (FileContents results), s'))"


definition Comprehensive_editFile ::
    "string \<Rightarrow> int \<Rightarrow> string \<Rightarrow> fileEdit list \<Rightarrow> bool \<Rightarrow> server
       \<Rightarrow> (error + tool_output) \<times> server" where
  "Comprehensive_editFile cwd now filePath edits dryRun s =
     (case validatePath cwd (allowedDirectories s) filePath of
        Inl e \<Rightarrow> (Inl e, s)
      | Inr validatedPath \<Rightarrow>
          (case fs_readFile (disk s) validatedPath of
             Inl e \<Rightarrow> (Inl (Failed ''Failed to edit file'' e), s)
           | Inr originalContent \<Rightarrow>
               (case apply_edits originalContent edits of
                  Inl e \<Rightarrow> (Inl (Failed ''Failed to edit file'' e), s)
                | Inr modifiedContent \<Rightarrow>
                    (if dryRun
                     then (Inr (DryRunPreview (length originalContent) (length modifiedContent)
                                  filePath), s)
                     else (case fs_writeFile (disk s) validatedPath modifiedContent of
                             Inl e \<Rightarrow> (Inl (Failed ''Failed to edit file'' e), s)
                           | Inr d' \<Rightarrow>
                               (Inr (EditedFile filePath),
                                s\<lparr>disk := d',
                                  memoryGraph := rememberFileAccess now filePath ''edit''
                                    (Some (no_metadata\<lparr>md_size := Some (length modifiedContent)\<rparr>))
                                    (memoryGraph s)\<rparr>))))))"














section \<open>FilesystemServerWithMemory (the bridge through the memory client)\<close>

text \<open>
  \<open>rememberFileAccess\<close> of FilesystemServerWithMemory with memory enabled. The memory
  client calls the tools of a MemoryServer; \<open>searchNodes('filesystem_file')\<close> returns the
  search results, parsed back from their JSON text.
\<close>

definition WithMemory_recently :: "int \<Rightarrow> memorySearchResult \<Rightarrow> bool" where
  "WithMemory_recently now f =
     list_ex (\<lambda>ob. str_includes ob ''Accessed at:''
                    \<and> date_after (split_second ''Accessed at: '' ob)
                         (now - 24 * 60 * 60 * 1000))
       (sr_observations f)"

definition WithMemory_rememberFileAccess ::
    "int \<Rightarrow> string \<Rightarrow> string \<Rightarrow> metadata option \<Rightarrow> memoryGraph \<Rightarrow> memoryGraph" where
  "WithMemory_rememberFileAccess now filePath operation md g =
     (let fileEntityName = ''file:'' @ filePath;
          dirPath = path_dirname filePath;
          fileName = path_basename filePath;
          directoryEntityName = ''directory:'' @ dirPath;
          obs = [''Operation: '' @ operation,
                 ''Accessed at: '' @ toISOString now,
                 ''File name: '' @ fileName,
                 ''Directory: '' @ dirPath]
                @ (case md of None \<Rightarrow> [] | Some m \<Rightarrow> metadata_observations operation m);
          g1 = snd (MemoryServer_createEntities
                 [\<lparr>e_name = fileEntityName, e_entityType = ''filesystem_file'',
                   e_observations = Some obs\<rparr>] g);
          g2 = snd (MemoryServer_createRelations
                 [\<lparr>r_from = directoryEntityName, r_to = fileEntityName,
                   relationType = ''contains''\<rparr>] g1);
          recentFiles = MemoryServer_searchNodes ''filesystem_file'' g2;
          recentlyAccessed = filter (WithMemory_recently now) recentFiles
      in if length recentlyAccessed > 1
         then snd (MemoryServer_createRelations
                [\<lparr>r_from = fileEntityName,
                  r_to = sr_name (recentlyAccessed ! (length recentlyAccessed - 2)),
                  relationType = ''accessed_after''\<rparr>] g2)
         else g2)"

section \<open>Auxiliary predicates of the proofs\<close>



text \<open>No entity has a relation whose target is \<open>n\<close>.\<close>

definition no_relation_to :: "string \<Rightarrow> memoryGraph \<Rightarrow> bool" where
  "no_relation_to n g = (\<forall>(key, entity) \<in> set g. \<forall>r \<in> set (relations entity). r_to r \<noteq> n)"

text \<open>Every relation of the graph points at an entity of the graph.\<close>

definition no_dangling :: "memoryGraph \<Rightarrow> bool" where
  "no_dangling g = (\<forall>(key, entity) \<in> set g. \<forall>r \<in> set (relations entity). r_to r \<in> fst ` set g)"




text \<open>
  The graph after the first two steps of \<open>rememberFileAccess\<close>, the upsert of the file
  entity and of the \<open>contains\<close> relation, and the list \<open>recentFiles\<close> computed from it.
\<close>

definition upserted :: "int \<Rightarrow> string \<Rightarrow> string \<Rightarrow> metadata option \<Rightarrow> memoryGraph \<Rightarrow> memoryGraph" where
  "upserted now filePath operation md g =
     createRelationsInternal
       [\<lparr>r_from = ''directory:'' @ path_dirname filePath, r_to = ''file:'' @ filePath,
         relationType = ''contains''\<rparr>]
       (createEntitiesInternal
          [\<lparr>e_name = ''file:'' @ filePath, e_entityType = ''filesystem_file'',
            e_observations = Some
              ([''Operation: '' @ operation,
                ''Accessed at: '' @ toISOString now,
                ''File name: '' @ path_basename filePath,
                ''Directory: '' @ path_dirname filePath]
               @ (case md of None \<Rightarrow> [] | Some m \<Rightarrow> metadata_observations operation m))\<rparr>] g)"

definition recent_files :: "int \<Rightarrow> memoryGraph \<Rightarrow> memoryNode list" where
  "recent_files now g = filter (accessed_recently now) (map snd g)"

section \<open>Basic facts about the primitives\<close>


lemma map_of_insert_index:
  "map_of (insert_index k v obj) = (map_of obj)(k \<mapsto> v)" if "map_of obj k = None"
  using that by (induction obj) (auto simp: fun_upd_twist split: if_splits)

lemma js_get_js_set [simp]:
  "js_get (js_set k v g) k' = (if k' = k then Some v else js_get g k')"
  by (auto simp: js_get_def js_set_def update_conv' map_of_insert_index map_add_def split: option.splits)

lemma js_set_new_last:
  "js_get g k = None \<Longrightarrow> \<not> is_array_index k \<Longrightarrow> js_set k v g = g @ [(k, v)]"
  by (simp add: js_get_def js_set_def)

lemma set_insert_index: "set (insert_index k v obj) = insert (k, v) (set obj)"
  by (induction obj) (auto split: if_splits)

lemma keys_insert_index: "fst ` set (insert_index k v obj) = insert k (fst ` set obj)"
  by (simp add: set_insert_index)

lemma keys_js_set: "fst ` set (js_set k v g) = insert k (fst ` set g)"
  by (auto simp: js_set_def dom_update keys_insert_index)




lemma set_add_all_append: "set_add_all acc (xs @ ys) = set_add_all (set_add_all acc xs) ys"
  by (induction xs arbitrary: acc) auto


lemma set_add_all_self: "distinct xs \<Longrightarrow> set_add_all acc xs = acc @ filter (\<lambda>x. x \<notin> set acc) xs"
  by (induction xs arbitrary: acc) (auto intro: filter_cong)

lemma spread_Set_distinct_id: "distinct xs \<Longrightarrow> spread_Set xs = xs"
  by (simp add: spread_Set_def set_add_all_self)

lemma set_add_all_filter:
  "set_add_all acc ys = acc @ filter (\<lambda>y. y \<notin> set acc) (set_add_all [] ys)"
proof (induction ys arbitrary: acc)
  case Nil
  then show ?case by simp
next
  case (Cons y ys)
  have a: "set_add_all [y] ys = [y] @ filter (\<lambda>z. z \<notin> set [y]) (set_add_all [] ys)"
    using Cons.IH[of "[y]"] .
  show ?case
  proof (cases "y \<in> set acc")
    case True
    have "filter (\<lambda>z. z \<notin> set acc) (filter (\<lambda>z. z \<noteq> y) (set_add_all [] ys))
          = filter (\<lambda>z. z \<notin> set acc) (set_add_all [] ys)"
      using True by (auto intro: filter_cong)
    then show ?thesis using True Cons.IH[of acc] a by simp
  next
    case False
    have "filter (\<lambda>z. z \<notin> set (acc @ [y])) (set_add_all [] ys)
          = filter (\<lambda>z. z \<notin> set acc) (filter (\<lambda>z. z \<noteq> y) (set_add_all [] ys))"
      by (auto intro: filter_cong)
    then show ?thesis using False Cons.IH[of "acc @ [y]"] a by simp
  qed
qed

lemma spread_Set_append_distinct:
  "distinct xs \<Longrightarrow> spread_Set (xs @ ys) = xs @ filter (\<lambda>y. y \<notin> set xs) (spread_Set ys)"
  unfolding spread_Set_def set_add_all_append
  using set_add_all_filter[of xs ys] by (simp add: set_add_all_self)



lemma record_obs_same: "node\<lparr>observations := observations node\<rparr> = (node :: memoryNode)"
  by simp

lemma js_get_ensure_entity:
  "js_get (ensure_entity n g) n' =
     (if n' = n \<and> js_get g n = None then Some (stub_entity n) else js_get g n')"
  by (auto simp: ensure_entity_def)

lemma source_entity_exists:
  "js_get (ensure_entity b (ensure_entity a g)) a \<noteq> None"
  by (auto simp: js_get_ensure_entity)

text \<open>The definitions that evaluate a graph operation on a concrete graph.\<close>

lemmas graph_eval =
  js_get_def js_set_def is_array_index_def is_digit_def dec_value_def
  spread_Set_def or_empty_def Let_def
  MemoryServer_createEntity_def createEntityInternal_def

section \<open>Facts about the sandbox and the disk\<close>

text \<open>The definitions that evaluate a path operation on concrete input.\<close>

lemmas path_eval =
  validatePath_def path_resolve_def path_segments_def render_path_def startsWith_def
  path_dirname_def path_basename_def Let_def

lemma validatePath_cases:
  "validatePath cwd dirs p =
     (if \<exists>dir \<in> set dirs. prefix dir (path_resolve cwd p)
      then Inr (path_resolve cwd p) else Inl (AccessDenied p))"
  by (auto simp: validatePath_def Let_def startsWith_def list_ex_iff)

lemma validatePath_Inl: "validatePath cwd dirs p = Inl e \<Longrightarrow> e = AccessDenied p"
  by (auto simp: validatePath_def Let_def split: if_splits)

lemma normalize_segments_canonical:
  assumes "seg \<in> set (normalize_segments acc segs)"
    and "\<forall>a \<in> set acc. a \<noteq> [] \<and> a \<noteq> ''.'' \<and> a \<noteq> ''..''"
  shows "seg \<noteq> [] \<and> seg \<noteq> ''.'' \<and> seg \<noteq> ''..''"
  using assms
proof (induction segs arbitrary: acc)
  case Nil
  then show ?case by auto
next
  case (Cons s segs)
  show ?case
  proof (cases "s = [] \<or> s = ''.''")
    case True
    then show ?thesis using Cons.IH[of acc] Cons.prems by auto
  next
    case False
    show ?thesis
    proof (cases "s = ''..''")
      case True
      have "\<forall>a \<in> set (case acc of [] \<Rightarrow> [] | _ # up \<Rightarrow> up). a \<noteq> [] \<and> a \<noteq> ''.'' \<and> a \<noteq> ''..''"
        using Cons.prems(2) by (cases acc) auto
      then show ?thesis using Cons.IH[of "case acc of [] \<Rightarrow> [] | _ # up \<Rightarrow> up"] Cons.prems(1) True
        by simp
    next
      case F2: False
      have "\<forall>a \<in> set (s # acc). a \<noteq> [] \<and> a \<noteq> ''.'' \<and> a \<noteq> ''..''"
        using Cons.prems(2) False F2 by auto
      then show ?thesis using Cons.IH[of "s # acc"] Cons.prems(1) False F2 by simp
    qed
  qed
qed

lemma path_segments_canonical:
  "seg \<in> set (path_segments p) \<Longrightarrow> seg \<noteq> [] \<and> seg \<noteq> ''.'' \<and> seg \<noteq> ''..''"
  unfolding path_segments_def by (rule normalize_segments_canonical) auto

lemma validatePath_denied_outside:
  "validatePath cwd dirs p = Inl e \<Longrightarrow>
     e = AccessDenied p \<and> (\<forall>dir \<in> set dirs. \<not> prefix dir (path_resolve cwd p))"
  by (auto simp: validatePath_cases split: if_splits)

lemma validatePath_accepts_prefix:
  "dir \<in> set dirs \<Longrightarrow> prefix dir (path_resolve cwd p) \<Longrightarrow>
     validatePath cwd dirs p = Inr (path_resolve cwd p)"
  by (auto simp: validatePath_cases)

section \<open>Updating an existing entity\<close>
















section \<open>Deleting entities\<close>

lemma keys_strip_relations_to: "fst ` set (strip_relations_to n g) = fst ` set g"
  by (force simp: strip_relations_to_def)

lemma keys_js_delete: "fst ` set (js_delete n g) = fst ` set g - {n}"
  by (force simp: js_delete_def AList.delete_eq)

lemma no_relation_to_strip: "no_relation_to n (strip_relations_to n g)"
  by (auto simp: no_relation_to_def strip_relations_to_def)

lemma js_get_None_iff: "js_get g n = None \<longleftrightarrow> n \<notin> fst ` set g"
  by (simp add: js_get_def map_of_eq_None_iff)

lemma Comprehensive_deleteEntity_absent:
  "n \<notin> fst ` set (Comprehensive_deleteEntity n g)"
  by (simp add: Comprehensive_deleteEntity_def keys_strip_relations_to keys_js_delete)

lemma Comprehensive_deleteEntity_clean:
  "no_relation_to n (Comprehensive_deleteEntity n g)"
  by (simp add: Comprehensive_deleteEntity_def no_relation_to_strip)

lemma no_dangling_delete:
  assumes "no_dangling g"
  shows "no_dangling (strip_relations_to n (js_delete n g))"
  using assms
  unfolding no_dangling_def keys_strip_relations_to keys_js_delete
  by (fastforce simp: strip_relations_to_def js_delete_def AList.delete_eq)

lemma Comprehensive_deleteEntities_no_dangling:
  "no_dangling g \<Longrightarrow> no_dangling (Comprehensive_deleteEntities ns g)"
  by (induction ns arbitrary: g) (auto simp: Comprehensive_deleteEntity_def no_dangling_delete)

lemma MemoryServer_deleteEntity_no_dangling:
  "no_dangling g \<Longrightarrow> no_dangling (snd (MemoryServer_deleteEntity n g))"
  by (auto simp: MemoryServer_deleteEntity_def no_dangling_delete)

lemma MemoryServer_deleteEntities_no_dangling:
  "no_dangling g \<Longrightarrow> no_dangling (snd (MemoryServer_deleteEntities ns g))"
proof (induction ns arbitrary: g)
  case (Cons n ns)
  show ?case
    using Cons.IH[OF MemoryServer_deleteEntity_no_dangling[OF Cons.prems, of n]]
    by (simp add: split_def Let_def)
qed simp

lemma MemoryServer_deleteEntity_absent:
  "n \<notin> fst ` set (snd (MemoryServer_deleteEntity n g))"
  by (auto simp: MemoryServer_deleteEntity_def keys_strip_relations_to keys_js_delete js_get_None_iff)

lemma MemoryServer_deleteEntity_clean:
  "js_get g n \<noteq> None \<or> no_relation_to n g \<Longrightarrow> no_relation_to n (snd (MemoryServer_deleteEntity n g))"
  by (auto simp: MemoryServer_deleteEntity_def no_relation_to_strip)

text \<open>
  Claim C6, as amended. After \<open>deleteEntities([n])\<close> the entity \<open>n\<close> is absent in both
  servers. The composite server then has no relation whose \<open>to\<close> is \<open>n\<close>, whatever the
  graph was. The standalone server strips the relations only inside
  \<open>if (this.memoryGraph.entities[name])\<close>, so the same holds there when \<open>n\<close> existed or
  nothing pointed at \<open>n\<close> before. In both servers a graph without dangling relations
  stays without them under \<open>deleteEntities\<close> of any list of names.
\<close>

theorem deleteEntities_leaves_no_relation_to_deleted:
  "n \<notin> fst ` set (Comprehensive_deleteEntities [n] g)
   \<and> no_relation_to n (Comprehensive_deleteEntities [n] g)
   \<and> n \<notin> fst ` set (snd (MemoryServer_deleteEntities [n] g))
   \<and> (js_get g n \<noteq> None \<or> no_relation_to n g \<longrightarrow>
        no_relation_to n (snd (MemoryServer_deleteEntities [n] g)))
   \<and> (no_dangling g \<longrightarrow>
        no_dangling (Comprehensive_deleteEntities ns g)
        \<and> no_dangling (snd (MemoryServer_deleteEntities ns g)))"
  using Comprehensive_deleteEntity_absent[of n g] Comprehensive_deleteEntity_clean[of n g]
    MemoryServer_deleteEntity_absent[of n g] MemoryServer_deleteEntity_clean[of g n]
    Comprehensive_deleteEntities_no_dangling[of g ns] MemoryServer_deleteEntities_no_dangling[of g ns]
  by (simp add: split_def Let_def)

theorem deleteEntities_leaves_no_relation_to_deleted_witness:
  "js_get [(''A'', \<lparr>name = ''A'', entityType = ''t'', observations = [],
                   relations = [\<lparr>r_from = ''A'', r_to = ''X'', relationType = ''r''\<rparr>]\<rparr>),
           (''X'', \<lparr>name = ''X'', entityType = ''t'', observations = [], relations = []\<rparr>)] ''X'' \<noteq> None
   \<and> no_relation_to ''X'' (snd (MemoryServer_deleteEntities [''X'']
          [(''A'', \<lparr>name = ''A'', entityType = ''t'', observations = [],
                   relations = [\<lparr>r_from = ''A'', r_to = ''X'', relationType = ''r''\<rparr>]\<rparr>),
           (''X'', \<lparr>name = ''X'', entityType = ''t'', observations = [], relations = []\<rparr>)]))
   \<and> no_dangling [(''A'', \<lparr>name = ''A'', entityType = ''t'', observations = [],
                   relations = [\<lparr>r_from = ''A'', r_to = ''X'', relationType = ''r''\<rparr>]\<rparr>),
           (''X'', \<lparr>name = ''X'', entityType = ''t'', observations = [], relations = []\<rparr>)]
   \<and> no_dangling (snd (MemoryServer_deleteEntities [''X'']
          [(''A'', \<lparr>name = ''A'', entityType = ''t'', observations = [],
                   relations = [\<lparr>r_from = ''A'', r_to = ''X'', relationType = ''r''\<rparr>]\<rparr>),
           (''X'', \<lparr>name = ''X'', entityType = ''t'', observations = [], relations = []\<rparr>)]))"
  using deleteEntities_leaves_no_relation_to_deleted
    [of "''X''" "[(''A'', \<lparr>name = ''A'', entityType = ''t'', observations = [],
                   relations = [\<lparr>r_from = ''A'', r_to = ''X'', relationType = ''r''\<rparr>]\<rparr>),
           (''X'', \<lparr>name = ''X'', entityType = ''t'', observations = [], relations = []\<rparr>)]"
        "[''X'']"]
  by (simp add: js_get_def no_dangling_def del: MemoryServer_deleteEntities.simps)

text \<open>
  The claim as stated fails in the standalone server: a graph read from the memory file
  in which \<open>A\<close> points at an entity \<open>X\<close> that does not exist is returned unchanged by
  \<open>deleteEntities(["X"])\<close>, the relation included.
\<close>

theorem deleteEntities_dangling_counterexample:
  "snd (MemoryServer_deleteEntities [''X'']
          [(''A'', \<lparr>name = ''A'', entityType = ''t'', observations = [],
                   relations = [\<lparr>r_from = ''A'', r_to = ''X'', relationType = ''r''\<rparr>]\<rparr>)])
     = [(''A'', \<lparr>name = ''A'', entityType = ''t'', observations = [],
                   relations = [\<lparr>r_from = ''A'', r_to = ''X'', relationType = ''r''\<rparr>]\<rparr>)]
   \<and> \<not> no_relation_to ''X'' (snd (MemoryServer_deleteEntities [''X'']
          [(''A'', \<lparr>name = ''A'', entityType = ''t'', observations = [],
                   relations = [\<lparr>r_from = ''A'', r_to = ''X'', relationType = ''r''\<rparr>]\<rparr>)]))"
  by (simp add: MemoryServer_deleteEntity_def js_get_def no_relation_to_def)

section \<open>Adding observations\<close>

lemma MemoryServer_addObservations_not_found:
  "js_get g n = None \<Longrightarrow> MemoryServer_addObservations n obs g = (Inl (EntityNotFound n), g)"
  by (simp add: MemoryServer_addObservations_def)

lemma Comprehensive_addObservations_not_found:
  "js_get g n = None \<Longrightarrow>
     Comprehensive_addObservations n obs g
       = (Inl (Failed ''Failed to add observations'' (EntityNotFound n)), g)"
  by (simp add: Comprehensive_addObservations_def)

lemma MemoryServer_addObservations_found:
  assumes "js_get g n = Some entity" "distinct (observations entity)"
  shows "MemoryServer_addObservations n obs g =
     (Inr (int (length (filter (\<lambda>ob. ob \<notin> set (observations entity)) (spread_Set obs)))),
      js_set n (entity\<lparr>observations :=
         observations entity @ filter (\<lambda>ob. ob \<notin> set (observations entity)) (spread_Set obs)\<rparr>) g)"
  using assms by (simp add: MemoryServer_addObservations_def Let_def spread_Set_append_distinct)

text \<open>
  Claim C7. The standalone server reports the number of observations it really added
  (\<open>MemoryServer_addObservations_found\<close>), and both servers fail on an unknown entity
  and leave the graph as it was. The composite server reports \<open>observations.length\<close>,
  the number of strings it was given: adding \<open>x\<close> to an entity that already holds \<open>x\<close>
  adds nothing and is answered \<open>Successfully added 1 observations\<close>, where the
  standalone server answers \<open>Added 0 new observations\<close>.
\<close>

theorem addObservations_reported_count:
  "Comprehensive_addObservations ''A'' [''x'']
      [(''A'', \<lparr>name = ''A'', entityType = ''t'', observations = [''x''], relations = []\<rparr>)]
     = (Inr 1, [(''A'', \<lparr>name = ''A'', entityType = ''t'', observations = [''x''], relations = []\<rparr>)])
   \<and> MemoryServer_addObservations ''A'' [''x'']
      [(''A'', \<lparr>name = ''A'', entityType = ''t'', observations = [''x''], relations = []\<rparr>)]
     = (Inr 0, [(''A'', \<lparr>name = ''A'', entityType = ''t'', observations = [''x''], relations = []\<rparr>)])"
  by (simp add: Comprehensive_addObservations_def MemoryServer_addObservations_def js_get_def
      js_set_def spread_Set_def)

section \<open>Creating the same entities twice\<close>





















section \<open>Searching\<close>

lemma foldl_count:
  "foldl (\<lambda>s x. if P x then s + c else s) s0 xs = s0 + c * int (length (filter P xs))"
  for c :: int
  by (induction xs arbitrary: s0) (auto simp: algebra_simps)

lemma MemoryServer_score_sum:
  "MemoryServer_score q key entity =
     (if str_includes (toLowerCase key) q then 10 else 0)
     + (if str_includes (toLowerCase (entityType entity)) q then 5 else 0)
     + 3 * int (length (filter (\<lambda>ob. str_includes (toLowerCase ob) q) (observations entity)))
     + 2 * int (length (filter (\<lambda>r. str_includes (toLowerCase (relationType r)) q
                                   \<or> str_includes (toLowerCase (r_to r)) q) (relations entity)))"
  by (simp add: MemoryServer_score_def Let_def foldl_count)

lemma Comprehensive_score_sum:
  "Comprehensive_score q entity =
     (if str_includes (toLowerCase (name entity)) q then 100 else 0)
     + (if str_includes (toLowerCase (entityType entity)) q then 50 else 0)
     + 10 * int (length (filter (\<lambda>ob. str_includes (toLowerCase ob) q) (observations entity)))"
  by (simp add: Comprehensive_score_def Let_def foldl_count)

lemma find_first_self: "find_first s s \<noteq> None"
  by (cases s) auto

lemma str_includes_self: "str_includes s s"
  by (simp add: str_includes_def find_first_self)

lemma score_to_result [simp]: "score (to_result entity sc) = sc"
  by (simp add: to_result_def)

lemma MemoryServer_hits_positive: "r \<in> set (MemoryServer_hits q g) \<Longrightarrow> 0 < score r"
  by (auto simp: MemoryServer_hits_def Let_def split: if_splits)

lemma Comprehensive_hits_positive: "r \<in> set (Comprehensive_hits q g) \<Longrightarrow> 0 < score r"
  by (auto simp: Comprehensive_hits_def Let_def split: if_splits)

lemma MemoryServer_hits_filter:
  "0 < k \<Longrightarrow> filter (\<lambda>r. score r = k) (MemoryServer_hits q g)
     = map (\<lambda>(key, entity). to_result entity k)
         (filter (\<lambda>(key, entity). MemoryServer_score q key entity = k) g)"
  by (induction g) (auto simp: MemoryServer_hits_def Let_def)

lemma Comprehensive_hits_filter:
  "0 < k \<Longrightarrow> filter (\<lambda>r. score r = k) (Comprehensive_hits q g)
     = map (\<lambda>(key, entity). to_result entity k)
         (filter (\<lambda>(key, entity). Comprehensive_score q entity = k) g)"
  by (induction g) (auto simp: Comprehensive_hits_def Let_def)

lemma sort_by_score_set: "set (sort_by_score rs) = set rs"
  by (simp add: sort_by_score_def)

lemma sort_by_score_sorted: "sorted_wrt (\<lambda>a b. score b \<le> score a) (sort_by_score rs)"
  using sorted_sort_key[of "\<lambda>r. - score r" rs]
  by (simp add: sort_by_score_def sorted_map)

lemma sort_by_score_stable:
  "filter (\<lambda>r. score r = k) (sort_by_score rs) = filter (\<lambda>r. score r = k) rs"
  using sort_key_stable[of "\<lambda>r. - score r" "- k" rs]
  by (simp add: sort_by_score_def)

lemmas search_eval =
  MemoryServer_searchNodes_def MemoryServer_hits_def MemoryServer_score_def
  searchNodesInternal_def Comprehensive_hits_def Comprehensive_score_def
  sort_by_score_def to_result_def str_includes_def toLowerCase_def lower_char_def

text \<open>
  Claim C4, as amended. In both servers \<open>searchNodes\<close> returns only entities with a
  positive score, in descending score order, and the entities of one score \<open>k\<close> appear in
  the order in which the graph enumerates them (the order of their creation, except that
  names which are array indices come first, in numeric order). For a query equal to an
  entity's exact name that entity scores at least 10 (100 in the composite server), and
  more than every entity that matches only through observations as long as at most three
  (nine) of its observations match: each matching observation adds 3 (10) to the score.
\<close>

theorem searchNodes_ranking:
  "(\<forall>r \<in> set (MemoryServer_searchNodes query g). 0 < score r)
   \<and> sorted_wrt (\<lambda>a b. score b \<le> score a) (MemoryServer_searchNodes query g)
   \<and> (0 < k \<longrightarrow>
        filter (\<lambda>r. score r = k) (MemoryServer_searchNodes query g)
          = map (\<lambda>(key, entity). to_result entity k)
              (filter (\<lambda>(key, entity). MemoryServer_score (toLowerCase query) key entity = k) g))
   \<and> 10 \<le> MemoryServer_score (toLowerCase query) query entity
   \<and> (\<not> str_includes (toLowerCase key') (toLowerCase query)
        \<and> \<not> str_includes (toLowerCase (entityType other)) (toLowerCase query)
        \<and> (\<forall>r \<in> set (relations other).
              \<not> str_includes (toLowerCase (relationType r)) (toLowerCase query)
              \<and> \<not> str_includes (toLowerCase (r_to r)) (toLowerCase query))
        \<and> length (filter (\<lambda>ob. str_includes (toLowerCase ob) (toLowerCase query))
                     (observations other)) \<le> 3
        \<longrightarrow> MemoryServer_score (toLowerCase query) key' other
              < MemoryServer_score (toLowerCase query) query entity)
   \<and> (\<forall>r \<in> set (searchNodesInternal query g). 0 < score r)
   \<and> sorted_wrt (\<lambda>a b. score b \<le> score a) (searchNodesInternal query g)
   \<and> (0 < k \<longrightarrow>
        filter (\<lambda>r. score r = k) (searchNodesInternal query g)
          = map (\<lambda>(key, entity). to_result entity k)
              (filter (\<lambda>(key, entity). Comprehensive_score (toLowerCase query) entity = k) g))
   \<and> (name entity = query \<longrightarrow> 100 \<le> Comprehensive_score (toLowerCase query) entity)
   \<and> (name entity = query
        \<and> \<not> str_includes (toLowerCase (name other)) (toLowerCase query)
        \<and> \<not> str_includes (toLowerCase (entityType other)) (toLowerCase query)
        \<and> length (filter (\<lambda>ob. str_includes (toLowerCase ob) (toLowerCase query))
                     (observations other)) \<le> 9
        \<longrightarrow> Comprehensive_score (toLowerCase query) other
              < Comprehensive_score (toLowerCase query) entity)"
proof (intro conjI impI ballI)
  fix r assume "r \<in> set (MemoryServer_searchNodes query g)"
  then show "0 < score r"
    by (simp add: MemoryServer_searchNodes_def sort_by_score_set MemoryServer_hits_positive)
next
  show "sorted_wrt (\<lambda>a b. score b \<le> score a) (MemoryServer_searchNodes query g)"
    by (simp add: MemoryServer_searchNodes_def sort_by_score_sorted)
next
  assume "0 < k"
  then show "filter (\<lambda>r. score r = k) (MemoryServer_searchNodes query g)
          = map (\<lambda>(key, entity). to_result entity k)
              (filter (\<lambda>(key, entity). MemoryServer_score (toLowerCase query) key entity = k) g)"
    by (simp add: MemoryServer_searchNodes_def sort_by_score_stable MemoryServer_hits_filter)
next
  show "10 \<le> MemoryServer_score (toLowerCase query) query entity"
    by (simp add: MemoryServer_score_sum str_includes_self)
next
  assume a: "\<not> str_includes (toLowerCase key') (toLowerCase query)
        \<and> \<not> str_includes (toLowerCase (entityType other)) (toLowerCase query)
        \<and> (\<forall>r \<in> set (relations other).
              \<not> str_includes (toLowerCase (relationType r)) (toLowerCase query)
              \<and> \<not> str_includes (toLowerCase (r_to r)) (toLowerCase query))
        \<and> length (filter (\<lambda>ob. str_includes (toLowerCase ob) (toLowerCase query))
                     (observations other)) \<le> 3"
  then have "filter (\<lambda>r. str_includes (toLowerCase (relationType r)) (toLowerCase query)
                 \<or> str_includes (toLowerCase (r_to r)) (toLowerCase query)) (relations other) = []"
    by (auto simp: filter_empty_conv)
  then have "MemoryServer_score (toLowerCase query) key' other \<le> 9"
    using a by (simp add: MemoryServer_score_sum)
  moreover have "10 \<le> MemoryServer_score (toLowerCase query) query entity"
    by (simp add: MemoryServer_score_sum str_includes_self)
  ultimately show "MemoryServer_score (toLowerCase query) key' other
              < MemoryServer_score (toLowerCase query) query entity"
    by linarith
next
  fix r assume "r \<in> set (searchNodesInternal query g)"
  then show "0 < score r"
    by (simp add: searchNodesInternal_def sort_by_score_set Comprehensive_hits_positive)
next
  show "sorted_wrt (\<lambda>a b. score b \<le> score a) (searchNodesInternal query g)"
    by (simp add: searchNodesInternal_def sort_by_score_sorted)
next
  assume "0 < k"
  then show "filter (\<lambda>r. score r = k) (searchNodesInternal query g)
          = map (\<lambda>(key, entity). to_result entity k)
              (filter (\<lambda>(key, entity). Comprehensive_score (toLowerCase query) entity = k) g)"
    by (simp add: searchNodesInternal_def sort_by_score_stable Comprehensive_hits_filter)
next
  assume "name entity = query"
  then show "100 \<le> Comprehensive_score (toLowerCase query) entity"
    by (simp add: Comprehensive_score_sum str_includes_self)
next
  assume a: "name entity = query
        \<and> \<not> str_includes (toLowerCase (name other)) (toLowerCase query)
        \<and> \<not> str_includes (toLowerCase (entityType other)) (toLowerCase query)
        \<and> length (filter (\<lambda>ob. str_includes (toLowerCase ob) (toLowerCase query))
                     (observations other)) \<le> 9"
  then have "Comprehensive_score (toLowerCase query) other \<le> 90"
    by (simp add: Comprehensive_score_sum)
  moreover have "100 \<le> Comprehensive_score (toLowerCase query) entity"
    using a by (simp add: Comprehensive_score_sum str_includes_self)
  ultimately show "Comprehensive_score (toLowerCase query) other
              < Comprehensive_score (toLowerCase query) entity"
    by linarith
qed


theorem searchNodes_ranking_witness:
  "(0::int) < 10
   \<and> filter (\<lambda>r. score r = 10) (MemoryServer_searchNodes ''foo''
      [(''foo'', \<lparr>name = ''foo'', entityType = ''t'', observations = [], relations = []\<rparr>),
       (''bar'', \<lparr>name = ''bar'', entityType = ''t'', observations = [''foo1''], relations = []\<rparr>)])
     = [to_result \<lparr>name = ''foo'', entityType = ''t'', observations = [], relations = []\<rparr> 10]
   \<and> \<not> str_includes (toLowerCase ''bar'') (toLowerCase ''foo'')
   \<and> length (filter (\<lambda>ob. str_includes (toLowerCase ob) (toLowerCase ''foo''))
        (observations \<lparr>name = ''bar'', entityType = ''t'', observations = [''foo1''], relations = []\<rparr>)) \<le> 3
   \<and> MemoryServer_score (toLowerCase ''foo'') ''bar'' \<lparr>name = ''bar'', entityType = ''t'', observations = [''foo1''], relations = []\<rparr>
       < MemoryServer_score (toLowerCase ''foo'') ''foo'' \<lparr>name = ''foo'', entityType = ''t'', observations = [], relations = []\<rparr>
   \<and> name \<lparr>name = ''foo'', entityType = ''t'', observations = [], relations = []\<rparr> = ''foo''
   \<and> Comprehensive_score (toLowerCase ''foo'') \<lparr>name = ''bar'', entityType = ''t'', observations = [''foo1''], relations = []\<rparr>
       < Comprehensive_score (toLowerCase ''foo'') \<lparr>name = ''foo'', entityType = ''t'', observations = [], relations = []\<rparr>"
  using searchNodes_ranking
    [of "''foo''" "[(''foo'', \<lparr>name = ''foo'', entityType = ''t'', observations = [], relations = []\<rparr>),
       (''bar'', \<lparr>name = ''bar'', entityType = ''t'', observations = [''foo1''], relations = []\<rparr>)]" 10
        "\<lparr>name = ''foo'', entityType = ''t'', observations = [], relations = []\<rparr>" "''bar''"
        "\<lparr>name = ''bar'', entityType = ''t'', observations = [''foo1''], relations = []\<rparr>"]
  by (simp add: search_eval)

text \<open>
  The claim as stated fails: four matching observations score 12, more than the 10 of the
  entity whose name is the query, so \<open>bar\<close> is ranked before \<open>foo\<close>. And two entities of
  equal score created in the order \<open>10\<close>, \<open>9\<close> are returned in the order \<open>9\<close>, \<open>10\<close>.
\<close>

theorem searchNodes_ranking_counterexample:
  "map (\<lambda>r. (sr_name r, score r)) (MemoryServer_searchNodes ''foo''
      [(''foo'', \<lparr>name = ''foo'', entityType = ''t'', observations = [], relations = []\<rparr>),
       (''bar'', \<lparr>name = ''bar'', entityType = ''t'',
                 observations = [''foo1'', ''foo2'', ''foo3'', ''foo4''], relations = []\<rparr>)])
     = [(''bar'', 12), (''foo'', 10)]
   \<and> map sr_name (MemoryServer_searchNodes ''t''
        (snd (MemoryServer_createEntities
           [\<lparr>e_name = ''10'', e_entityType = ''t'', e_observations = None\<rparr>,
            \<lparr>e_name = ''9'', e_entityType = ''t'', e_observations = None\<rparr>] [])))
     = [''9'', ''10'']"
  by (simp add: search_eval graph_eval)

section \<open>The sandbox check\<close>

text \<open>
  Claim C1. \<open>validatePath\<close> resolves the path, which removes the \<open>.\<close> and \<open>..\<close> segments
  (\<open>path_segments_canonical\<close>), and then tests \<open>resolvedPath.startsWith(allowedDir)\<close> on
  the strings (\<open>validatePath_cases\<close>). A refused path is outside every allowed directory
  (\<open>validatePath_denied_outside\<close>), but a path is accepted whenever an allowed directory
  is a prefix of its text, not only when it is that directory or lies under it. With \<open>/tmp/a\<close> allowed, \<open>/tmp/ab/secret.txt\<close> is
  accepted, also when it is written as a \<open>..\<close> traversal from the allowed root, although
  \<open>/tmp/ab\<close> is neither \<open>/tmp/a\<close> nor nested under it.
\<close>

theorem validatePath_accepts_sibling_prefix:
  "validatePath ''/'' [''/tmp/a''] ''/tmp/ab/secret.txt'' = Inr ''/tmp/ab/secret.txt''
   \<and> validatePath ''/'' [''/tmp/a''] ''/tmp/a/../ab/secret.txt'' = Inr ''/tmp/ab/secret.txt''
   \<and> \<not> prefix (path_segments ''/tmp/a'') (path_segments ''/tmp/ab/secret.txt'')"
  by (simp add: path_eval)

section \<open>Editing a file\<close>

lemma getSubstitution_literal:
  "CHR ''$'' \<notin> set repl \<Longrightarrow> getSubstitution m b a repl = repl"
  by (induction m b a repl rule: getSubstitution.induct) auto

lemma js_replace_literal:
  "CHR ''$'' \<notin> set repl \<Longrightarrow> find_first pat s = Some (b, a) \<Longrightarrow> js_replace s pat repl = b @ repl @ a"
  by (simp add: js_replace_def getSubstitution_literal)

lemma find_first_decompose:
  "find_first pat s = Some (b, a) \<Longrightarrow> s = b @ pat @ a"
proof (induction s arbitrary: b a)
  case Nil
  then show ?case by (auto split: if_splits)
next
  case (Cons c s)
  show ?case
  proof (cases "prefix pat (c # s)")
    case True
    then obtain r where r: "c # s = pat @ r" by (auto simp: prefix_def)
    have "find_first pat (c # s) = Some ([], drop (length pat) (c # s))" using True by simp
    then have "b = []" "a = drop (length pat) (c # s)" using Cons.prems by auto
    then show ?thesis using r by simp
  next
    case False
    then show ?thesis using Cons by (auto split: option.splits)
  qed
qed

lemma editFile_dryRun_keeps_disk:
  "snd (FilesystemServer_editFile cwd dirs p edits True d) = d"
  by (auto simp: FilesystemServer_editFile_def split: sum.splits)

lemma Comprehensive_editFile_dryRun_keeps_state:
  "snd (Comprehensive_editFile cwd now p edits True s) = s"
  by (auto simp: Comprehensive_editFile_def split: sum.splits)

lemma apply_edits_append:
  "apply_edits c (es1 @ es2) =
     (case apply_edits c es1 of Inl e \<Rightarrow> Inl e | Inr c' \<Rightarrow> apply_edits c' es2)"
  by (induction es1 arbitrary: c) auto

lemma apply_edits_not_found:
  "apply_edits c es1 = Inr c' \<Longrightarrow> \<not> str_includes c' (oldText edit) \<Longrightarrow>
     apply_edits c (es1 @ edit # es2) = Inl (TextNotFound (oldText edit))"
  by (simp add: apply_edits_append)

lemma editFile_dryRun_reports:
  assumes "validatePath cwd dirs p = Inr validatedPath"
    and "fs_readFile d validatedPath = Inr originalContent"
    and "apply_edits originalContent edits = Inr modifiedContent"
  shows "FilesystemServer_editFile cwd dirs p edits True d
           = (Inr (DryRunPreview (length originalContent) (length modifiedContent) p), d)"
  using assms by (simp add: FilesystemServer_editFile_def)

lemma Comprehensive_editFile_dryRun_reports:
  assumes "validatePath cwd (allowedDirectories s) p = Inr validatedPath"
    and "fs_readFile (disk s) validatedPath = Inr originalContent"
    and "apply_edits originalContent edits = Inr modifiedContent"
  shows "Comprehensive_editFile cwd now p edits True s
           = (Inr (DryRunPreview (length originalContent) (length modifiedContent) p), s)"
  using assms by (simp add: Comprehensive_editFile_def)

lemma editFile_text_not_found:
  assumes "validatePath cwd dirs p = Inr validatedPath"
    and "fs_readFile d validatedPath = Inr originalContent"
    and "apply_edits originalContent edits = Inl e"
  shows "FilesystemServer_editFile cwd dirs p edits dryRun d
           = (Inl (Failed ''Failed to edit file'' e), d)"
  using assms by (simp add: FilesystemServer_editFile_def)

text \<open>
  Claim C8. The edits are applied in order to the content the previous edit left
  (\<open>apply_edits_append\<close>), the call fails with the first \<open>oldText\<close> that is absent
  (\<open>apply_edits_not_found\<close>, \<open>editFile_text_not_found\<close>), and a dry run leaves the
  disk as it was and reports the two lengths (\<open>editFile_dryRun_keeps_disk\<close>,
  \<open>editFile_dryRun_reports\<close>). The replacement is literal only when \<open>newText\<close> holds
  no dollar sign (\<open>js_replace_literal\<close>): \<open>String.prototype.replace\<close> reads a dollar sign
  followed by a dollar sign, an ampersand, a backquote or an apostrophe in the replacement
  text as a pattern. Replacing \<open>price\<close> by \<open>$$5\<close> in \<open>cost: price\<close> writes \<open>cost: $5\<close>,
  in the plain and in the composite server, and the dry run reports the length 8 where the
  literal replacement \<open>cost: $$5\<close> has 9 characters.
\<close>

theorem editFile_replacement_patterns:
  "FilesystemServer_editFile ''/'' [''/tmp''] ''/tmp/f''
      [\<lparr>oldText = ''price'', newText = ''$$5''\<rparr>] False
      [(''/'', Directory), (''/tmp'', Directory), (''/tmp/f'', File ''cost: price'')]
     = (Inr (EditedFile ''/tmp/f''),
        [(''/'', Directory), (''/tmp'', Directory), (''/tmp/f'', File ''cost: $5'')])
   \<and> FilesystemServer_editFile ''/'' [''/tmp''] ''/tmp/f''
      [\<lparr>oldText = ''price'', newText = ''$$5''\<rparr>] True
      [(''/'', Directory), (''/tmp'', Directory), (''/tmp/f'', File ''cost: price'')]
     = (Inr (DryRunPreview 11 8 ''/tmp/f''),
        [(''/'', Directory), (''/tmp'', Directory), (''/tmp/f'', File ''cost: price'')])
   \<and> disk (snd (Comprehensive_editFile ''/'' 1705329000000 ''/tmp/f''
      [\<lparr>oldText = ''price'', newText = ''$$5''\<rparr>] False
      \<lparr>allowedDirectories = [''/tmp''], memoryGraph = [],
        disk = [(''/'', Directory), (''/tmp'', Directory), (''/tmp/f'', File ''cost: price'')],
        isInitialized = True\<rparr>))
     = [(''/'', Directory), (''/tmp'', Directory), (''/tmp/f'', File ''cost: $5'')]
   \<and> length (''cost: '' @ ''$$5'') = 9"
  by code_simp

section \<open>Validation comes before every effect\<close>


lemma Comprehensive_readOne_denied:
  "validatePath cwd (allowedDirectories s) p = Inl e \<Longrightarrow>
     Comprehensive_readOne cwd now p (results, s) = (js_set p (Inl (AccessDenied p)) results, s)"
  by (auto simp: Comprehensive_readOne_def dest: validatePath_Inl)

lemma fold_readOne_all_denied:
  assumes "\<forall>p \<in> set ps. \<exists>e. validatePath cwd (allowedDirectories s) p = Inl e"
  shows "snd (fold (Comprehensive_readOne cwd now) ps (results, s)) = s"
  using assms
proof (induction ps arbitrary: results)
  case Nil
  then show ?case by simp
next
  case (Cons p ps)
  then obtain e where "validatePath cwd (allowedDirectories s) p = Inl e" by auto
  then have "Comprehensive_readOne cwd now p (results, s) = (js_set p (Inl (AccessDenied p)) results, s)"
    by (rule Comprehensive_readOne_denied)
  then show ?case using Cons by simp
qed

lemma Comprehensive_readMultipleFiles_all_denied:
  assumes "\<forall>p \<in> set ps. \<exists>e. validatePath cwd (allowedDirectories s) p = Inl e"
  shows "snd (Comprehensive_readMultipleFiles cwd now ps s) = s"
  using fold_readOne_all_denied[OF assms, of now "[]"]
  by (simp add: Comprehensive_readMultipleFiles_def split_def)






section \<open>The allowed directories never run out\<close>



lemma remove_only_directory_repeated:
  assumes "set dirs = {path_resolve cwd dirPath}"
  shows "FilesystemServer_removeAllowedDirectory cwd save_ok dirPath dirs
           = (Inl (Failed ''Failed to remove directory'' LastDirectory), [path_resolve cwd dirPath])"
proof -
  have "filter (\<lambda>dir. dir \<noteq> path_resolve cwd dirPath) dirs = []"
    using assms by (auto simp: filter_empty_conv)
  moreover have "dirs \<noteq> []" using assms by auto
  ultimately show ?thesis
    by (simp add: FilesystemServer_removeAllowedDirectory_def Let_def)
qed





section \<open>The accessed-after relation\<close>

lemma rememberFileAccess_unfold:
  "rememberFileAccess now filePath operation md g =
     (let g2 = upserted now filePath operation md g;
          recentFiles = recent_files now g2
      in if 1 < length recentFiles
         then createRelationsInternal
                [\<lparr>r_from = ''file:'' @ filePath,
                  r_to = name (recentFiles ! (length recentFiles - 2)),
                  relationType = ''accessed_after''\<rparr>] g2
         else g2)"
  by (simp add: rememberFileAccess_def upserted_def recent_files_def Let_def)

lemma createRelationInternal_has_edge:
  "\<exists>entity. js_get (createRelationInternal relation g) (r_from relation) = Some entity
      \<and> (\<exists>r \<in> set (relations entity). r_to r = r_to relation \<and> relationType r = relationType relation)"
proof -
  let ?g2 = "ensure_entity (r_to relation) (ensure_entity (r_from relation) g)"
  obtain fromEntity where f: "js_get ?g2 (r_from relation) = Some fromEntity"
    using source_entity_exists[of "r_to relation" "r_from relation" g] by auto
  show ?thesis
  proof (cases "find (same_edge relation) (relations fromEntity)")
    case None
    then show ?thesis using f by (simp add: createRelationInternal_def Let_def)
  next
    case (Some r)
    then have "r \<in> set (relations fromEntity)" "same_edge relation r"
      by (auto simp: find_Some_iff)
    then show ?thesis using f Some
      by (auto simp: createRelationInternal_def Let_def same_edge_def)
  qed
qed

lemma rememberFileAccess_links_second_to_last:
  assumes "1 < length (recent_files now (upserted now filePath operation md g))"
  shows "\<exists>entity. js_get (rememberFileAccess now filePath operation md g) (''file:'' @ filePath)
            = Some entity
      \<and> (\<exists>r \<in> set (relations entity).
            r_to r = name (recent_files now (upserted now filePath operation md g)
                           ! (length (recent_files now (upserted now filePath operation md g)) - 2))
            \<and> relationType r = ''accessed_after'')"
  using assms
    createRelationInternal_has_edge
      [of "\<lparr>r_from = ''file:'' @ filePath,
            r_to = name (recent_files now (upserted now filePath operation md g)
                           ! (length (recent_files now (upserted now filePath operation md g)) - 2)),
            relationType = ''accessed_after''\<rparr>"
          "upserted now filePath operation md g"]
  by (simp add: rememberFileAccess_unfold Let_def)

lemma rememberFileAccess_no_link:
  assumes "\<not> 1 < length (recent_files now (upserted now filePath operation md g))"
  shows "rememberFileAccess now filePath operation md g = upserted now filePath operation md g"
  using assms by (simp add: rememberFileAccess_unfold Let_def)

text \<open>
  Claim C9. \<open>recentFiles\<close> lists the recently accessed file entities in the order in which
  the graph enumerates them, and the relation goes to \<open>recentFiles[length - 2]\<close>
  (\<open>rememberFileAccess_links_second_to_last\<close>): the second-to-last created of them,
  whichever file was touched when. After \<open>read_file\<close> of
  \<open>/d/a\<close>, \<open>/d/b\<close> and \<open>/d/a\<close> again, one minute apart, the third call links
  \<open>file:/d/a\<close> to itself; the graph holds no \<open>accessed_after\<close> relation from \<open>file:/d/a\<close>
  to \<open>file:/d/b\<close>, the file touched just before. The bridge of FilesystemServerWithMemory
  gives the same relations on the same three accesses.
\<close>

theorem accessed_after_follows_enumeration_order:
  "map (\<lambda>(key, entity).
          (key, map r_to (filter (\<lambda>r. relationType r = ''accessed_after'') (relations entity))))
     (memoryGraph
       (snd (Comprehensive_readFile ''/'' 1705329120000 ''/d/a''
         (snd (Comprehensive_readFile ''/'' 1705329060000 ''/d/b''
           (snd (Comprehensive_readFile ''/'' 1705329000000 ''/d/a''
             \<lparr>allowedDirectories = [''/d''], memoryGraph = [],
               disk = [(''/'', Directory), (''/d'', Directory), (''/d/a'', File ''x''),
                       (''/d/b'', File ''y'')], isInitialized = True\<rparr>)))))))
     = [(''file:/d/a'', [''file:/d/a'']), (''directory:/d'', []), (''file:/d/b'', [''file:/d/a''])]
   \<and> map (\<lambda>(key, entity).
          (key, map r_to (filter (\<lambda>r. relationType r = ''accessed_after'') (relations entity))))
     (WithMemory_rememberFileAccess 1705329120000 ''/d/a'' ''read''
        (Some (no_metadata\<lparr>md_size := Some 1, md_content := Some ''x''\<rparr>))
        (WithMemory_rememberFileAccess 1705329060000 ''/d/b'' ''read''
           (Some (no_metadata\<lparr>md_size := Some 1, md_content := Some ''y''\<rparr>))
           (WithMemory_rememberFileAccess 1705329000000 ''/d/a'' ''read''
              (Some (no_metadata\<lparr>md_size := Some 1, md_content := Some ''x''\<rparr>)) [])))
     = [(''file:/d/a'', [''file:/d/a'']), (''directory:/d'', []), (''file:/d/b'', [''file:/d/a''])]"
  by code_simp

end
